theory Spec2Isabelle
  imports Main
begin

section \<open>Python values read from the spreadsheet\<close>

text \<open>
  A Python \<open>str\<close> is modelled as a \<open>string\<close> whose characters are code points
  below 256, so \<open>length\<close> counts code points as Python does. A character outside
  ASCII is written \<open>CHR 0x..\<close>.

  A cell of a row is one of the values that \<open>pandas.read_excel\<close> hands out. Of
  a finite float the program observes only \<open>int(x)\<close> and \<open>str(x)\<close>, which
  \<open>CFloat\<close> carries; \<open>CNaN\<close> is the marker of an empty cell, and \<open>CInf\<close> an
  infinite float with its \<open>str\<close>. \<open>CMarker\<close> is any other marker of a missing
  value (\<open>pd.NaT\<close>, \<open>pd.NA\<close>) and \<open>COther\<close> any other object (a truth value, a
  timestamp); each carries its \<open>str\<close> and what \<open>int\<close> makes of it. An integer
  cell comes from a 64-bit integer or a double of the spreadsheet, far below the 4300
  digits beyond which the interpreter refuses to convert between \<open>int\<close> and
  \<open>str\<close>.
\<close>

datatype exc = KeyError string | ValueError | TypeError | OverflowError

datatype cell =
    CStr string
  | CInt int
  | CFloat int string
  | CNaN
  | CInf string
  | CNone
  | CMarker string "exc + int"
  | COther string "exc + int"

type_synonym row = "string \<rightharpoonup> cell"

text \<open>\<open>row[key]\<close>: a label that the row does not have raises \<open>KeyError\<close>.\<close>

definition getitem :: "row \<Rightarrow> string \<Rightarrow> exc + cell" where
  "getitem r key = (case r key of None \<Rightarrow> Inl (KeyError key) | Some v \<Rightarrow> Inr v)"

text \<open>Sequencing of evaluations, the first exception ending the expression.\<close>

definition and_then :: "exc + 'a \<Rightarrow> ('a \<Rightarrow> exc + 'b) \<Rightarrow> exc + 'b" where
  "and_then m f = (case m of Inl e \<Rightarrow> Inl e | Inr v \<Rightarrow> f v)"

subsection \<open>\<open>str(n)\<close> for an integer\<close>

fun str_nat :: "nat \<Rightarrow> string" where
  "str_nat n =
     (if n < 10 then [char_of (48 + n)]
      else str_nat (n div 10) @ [char_of (48 + n mod 10)])"

declare str_nat.simps [simp del]

definition str_int :: "int \<Rightarrow> string" where
  "str_int i = (if i < 0 then CHR ''-'' # str_nat (nat (- i)) else str_nat (nat i))"

subsection \<open>\<open>int(s)\<close> for a string\<close>

text \<open>
  \<open>int\<close> on a string strips white space, reads an optional sign, then decimal digits
  in which single underscores may separate digits; more than \<open>max_str_digits\<close>
  digits are refused. Anything else is \<open>ValueError\<close> too. The white space that
  \<open>int\<close> strips is the ASCII white space (code points 9 to 13 and 32) and the two
  white space characters above ASCII, 133 and 160; the separators 28 to 31 are not
  stripped.
\<close>

definition is_space :: "char \<Rightarrow> bool" where
  "is_space c =
     (let n = (of_char c :: nat) in (9 \<le> n \<and> n \<le> 13) \<or> n = 32 \<or> n = 133 \<or> n = 160)"

text \<open>\<open>sys.int_info.default_max_str_digits\<close>; the program does not change the limit.\<close>

definition max_str_digits :: nat where
  "max_str_digits = 4300"

definition is_digit :: "char \<Rightarrow> bool" where
  "is_digit c = (let n = (of_char c :: nat) in 48 \<le> n \<and> n \<le> 57)"

definition digit_val :: "char \<Rightarrow> nat" where
  "digit_val c = of_char c - 48"

definition strip :: "string \<Rightarrow> string" where
  "strip s = rev (dropWhile is_space (rev (dropWhile is_space s)))"

fun parse_digits :: "nat \<Rightarrow> string \<Rightarrow> nat option" where
  "parse_digits acc [] = Some acc"
| "parse_digits acc [c] = (if is_digit c then Some (acc * 10 + digit_val c) else None)"
| "parse_digits acc (c # d # cs) =
     (if is_digit c then parse_digits (acc * 10 + digit_val c) (d # cs)
      else if c = CHR ''_'' \<and> is_digit d then parse_digits acc (d # cs)
      else None)"

definition unsigned_of_str :: "string \<Rightarrow> nat option" where
  "unsigned_of_str body =
     (case body of
        [] \<Rightarrow> None
      | d # ds \<Rightarrow>
          if is_digit d
          then (if length (filter is_digit body) > max_str_digits then None
                else parse_digits 0 body)
          else None)"

definition int_of_str :: "string \<Rightarrow> int option" where
  "int_of_str s =
     (case strip s of
        [] \<Rightarrow> None
      | c # cs \<Rightarrow>
          if c = CHR ''-'' then map_option (\<lambda>n. - int n) (unsigned_of_str cs)
          else if c = CHR ''+'' then map_option int (unsigned_of_str cs)
          else map_option int (unsigned_of_str (c # cs)))"

subsection \<open>The operations the payload builder applies to a cell\<close>

fun py_str :: "cell \<Rightarrow> string" where
  "py_str (CStr s) = s"
| "py_str (CInt i) = str_int i"
| "py_str (CFloat t s) = s"
| "py_str CNaN = ''nan''"
| "py_str (CInf s) = s"
| "py_str CNone = ''None''"
| "py_str (CMarker s i) = s"
| "py_str (COther s i) = s"

fun py_int :: "cell \<Rightarrow> exc + int" where
  "py_int (CStr s) = (case int_of_str s of None \<Rightarrow> Inl ValueError | Some i \<Rightarrow> Inr i)"
| "py_int (CInt i) = Inr i"
| "py_int (CFloat t s) = Inr t"
| "py_int CNaN = Inl ValueError"
| "py_int (CInf s) = Inl OverflowError"
| "py_int CNone = Inl TypeError"
| "py_int (CMarker s i) = i"
| "py_int (COther s i) = i"

text \<open>\<open>pd.notna\<close>: false on the markers of a missing value.\<close>

fun notna :: "cell \<Rightarrow> bool" where
  "notna CNaN = False"
| "notna CNone = False"
| "notna (CMarker s i) = False"
| "notna _ = True"

text \<open>\<open>s.split(',')\<close>: the empty string splits into one empty piece.\<close>

fun split_comma :: "string \<Rightarrow> string list" where
  "split_comma [] = [[]]"
| "split_comma (c # cs) =
     (if c = CHR '','' then [] # split_comma cs
      else (case split_comma cs of
              [] \<Rightarrow> [[c]]
            | w # ws \<Rightarrow> (c # w) # ws))"

section \<open>The payload builder\<close>

record payload =
  name :: string
  contact_name :: string
  x_studio_tese :: string
  user_id :: int
  team_id :: int
  tag_ids :: "string list"
  stage_id :: int

text \<open>
  The dictionary display of \<open>prepare_payload\<close>: its entries are evaluated in the
  order written, and the first exception ends the evaluation.
\<close>

definition build_dict :: "row \<Rightarrow> exc + payload" where
  "build_dict r =
     and_then (getitem r ''Name'') (\<lambda>c_name.
     and_then (getitem r ''Company Name'') (\<lambda>c_contact.
     and_then (getitem r ''x_studio_tese'') (\<lambda>c_tese.
     and_then (and_then (getitem r ''user_id'') py_int) (\<lambda>uid.
     and_then (and_then (getitem r ''team_id'') py_int) (\<lambda>tid.
     and_then (getitem r ''tag_ids'') (\<lambda>c_tags.
     and_then (getitem r ''stage_id'') (\<lambda>c_stage.
     and_then (if notna c_stage then py_int c_stage else Inr 10) (\<lambda>stage.
       Inr \<lparr> name = py_str c_name,
             contact_name = py_str c_contact,
             x_studio_tese = py_str c_tese,
             user_id = uid,
             team_id = tid,
             tag_ids = (case c_tags of CStr s \<Rightarrow> split_comma s | _ \<Rightarrow> []),
             stage_id = stage \<rparr>))))))))"

text \<open>
  \<open>prepare_payload\<close> catches every exception of the display, prints it and returns
  \<open>None\<close>. (Console output is not part of the model.)
\<close>

definition prepare_payload :: "row \<Rightarrow> payload option" where
  "prepare_payload r = (case build_dict r of Inl e \<Rightarrow> None | Inr p \<Rightarrow> Some p)"

section \<open>The outcome logger\<close>

subsection \<open>\<open>json.dumps\<close> of a payload\<close>

text \<open>
  \<open>json.dumps\<close> with its defaults: keys in insertion order, the separators
  \<open>", "\<close> and \<open>": "\<close>, and every character outside the printable ASCII range, the
  double quote and the backslash escaped.
\<close>

definition hex_digit :: "nat \<Rightarrow> char" where
  "hex_digit n = (if n < 10 then char_of (48 + n) else char_of (87 + n))"

definition json_char :: "char \<Rightarrow> string" where
  "json_char c =
     (let n = (of_char c :: nat) in
      if n = 0x22 then [CHR 0x5C, CHR 0x22]
      else if n = 0x5C then [CHR 0x5C, CHR 0x5C]
      else if n = 0x0A then [CHR 0x5C, CHR ''n'']
      else if n = 0x0D then [CHR 0x5C, CHR ''r'']
      else if n = 0x09 then [CHR 0x5C, CHR ''t'']
      else if n = 0x08 then [CHR 0x5C, CHR ''b'']
      else if n = 0x0C then [CHR 0x5C, CHR ''f'']
      else if 0x20 \<le> n \<and> n \<le> 0x7E then [c]
      else [CHR 0x5C, CHR ''u'', CHR ''0'', CHR ''0'', hex_digit (n div 16), hex_digit (n mod 16)])"

definition json_str :: "string \<Rightarrow> string" where
  "json_str s = CHR 0x22 # concat (map json_char s) @ [CHR 0x22]"

fun join :: "string \<Rightarrow> string list \<Rightarrow> string" where
  "join sep [] = []"
| "join sep [x] = x"
| "join sep (x # y # ys) = x @ sep @ join sep (y # ys)"

definition json_list :: "string list \<Rightarrow> string" where
  "json_list xs = ''['' @ join '', '' (map json_str xs) @ '']''"

definition json_key :: "string \<Rightarrow> string" where
  "json_key k = json_str k @ '': ''"

definition json_dumps :: "payload \<Rightarrow> string" where
  "json_dumps p =
     ''{'' @ json_key ''name'' @ json_str (name p)
     @ '', '' @ json_key ''contact_name'' @ json_str (contact_name p)
     @ '', '' @ json_key ''x_studio_tese'' @ json_str (x_studio_tese p)
     @ '', '' @ json_key ''user_id'' @ str_int (user_id p)
     @ '', '' @ json_key ''team_id'' @ str_int (team_id p)
     @ '', '' @ json_key ''tag_ids'' @ json_list (tag_ids p)
     @ '', '' @ json_key ''stage_id'' @ str_int (stage_id p)
     @ ''}''"

subsection \<open>\<open>log_result\<close>\<close>

record response =
  status_code :: int

text \<open>
  The truth value of a response is its \<open>ok\<close>: it is false exactly for the status
  codes from 400 up to 599.
\<close>

definition ok :: "response \<Rightarrow> bool" where
  "ok r = (\<not> (400 \<le> status_code r \<and> status_code r < 600))"

definition str_opt :: "string option \<Rightarrow> string" where
  "str_opt error = (case error of None \<Rightarrow> ''None'' | Some e \<Rightarrow> e)"

text \<open>
  The text that \<open>log_result\<close> writes, \<open>timestamp\<close> being what the clock formats
  to at the call. The test \<open>if response\<close> fails when \<open>response\<close> is \<open>None\<close> and
  when it is a response that is not \<open>ok\<close>.
\<close>

definition log_line :: "string \<Rightarrow> payload \<Rightarrow> response option \<Rightarrow> string option \<Rightarrow> string" where
  "log_line timestamp data response error =
     (let falha = ''['' @ timestamp @ ''] Falha - Dados: '' @ json_dumps data
                  @ '' - Erro: '' @ str_opt error @ [CHR 0x0A]
      in case response of
           None \<Rightarrow> falha
         | Some r \<Rightarrow>
             if ok r
             then ''['' @ timestamp @ ''] Sucesso - Dados: '' @ json_dumps data
                  @ '' - Status: '' @ str_int (status_code r) @ [CHR 0x0A]
             else falha)"

section \<open>The effects of a run\<close>

datatype target = SuccessFile | FailureFile

datatype io =
    POST string payload int
  | SLEEP int
  | APPEND target string

text \<open>
  The state of a run: the flag of \<open>GracefulExit\<close>, the text appended to each of the
  two log files, and the effects in the order they happened, each with the position of
  the row it belongs to.
\<close>

record state =
  kill_now :: bool
  success_file :: "string list"
  failure_file :: "string list"
  trace :: "(nat \<times> io) list"

definition exit_gracefully :: "state \<Rightarrow> state" where
  "exit_gracefully st = st\<lparr>kill_now := True\<rparr>"

definition append_to :: "target \<Rightarrow> string \<Rightarrow> state \<Rightarrow> state" where
  "append_to file_path text st =
     (case file_path of
        SuccessFile \<Rightarrow> st\<lparr>success_file := success_file st @ [text]\<rparr>
      | FailureFile \<Rightarrow> st\<lparr>failure_file := failure_file st @ [text]\<rparr>)"

definition log_result ::
  "nat \<Rightarrow> string \<Rightarrow> target \<Rightarrow> payload \<Rightarrow> response option \<Rightarrow> string option \<Rightarrow> state \<Rightarrow> state" where
  "log_result index timestamp file_path data response error st =
     (let text = log_line timestamp data response error;
          st' = append_to file_path text st
      in st'\<lparr>trace := trace st' @ [(index, APPEND file_path text)]\<rparr>)"

section \<open>The retrying submitter\<close>

text \<open>
  One call of \<open>requests.post\<close> returns a response, or raises \<open>Timeout\<close>, another
  \<open>RequestException\<close>, or an exception outside that hierarchy; each carries its text.
\<close>

datatype post_outcome =
    Responded response
  | TimedOut string
  | TransportFailed string
  | Crashed string

datatype request_exc =
    Timeout string
  | RequestException string
  | OtherException string

datatype 'a outcome = Returned 'a | Raised request_exc

definition after :: "io list \<Rightarrow> 'a \<times> io list \<Rightarrow> 'a \<times> io list" where
  "after ios r = (fst r, ios @ snd r)"

text \<open>
  The loop \<open>for attempt in range(max_retries)\<close> from \<open>attempt\<close> on; \<open>post\<close> gives
  the outcome of the call made at each attempt. A range that is exhausted leaves the
  function at its end, which returns \<open>None\<close>.
\<close>

function make_request_from ::
  "(nat \<Rightarrow> post_outcome) \<Rightarrow> string \<Rightarrow> payload \<Rightarrow> int \<Rightarrow> int \<Rightarrow> nat
     \<Rightarrow> response option outcome \<times> io list" where
  "make_request_from post url data timeout max_retries attempt =
     (if int attempt < max_retries then
        (case post attempt of
           Responded r \<Rightarrow> (Returned (Some r), [POST url data timeout])
         | TimedOut m \<Rightarrow>
             if int attempt = max_retries - 1 then (Raised (Timeout m), [POST url data timeout])
             else after [POST url data timeout, SLEEP 1]
                    (make_request_from post url data timeout max_retries (Suc attempt))
         | TransportFailed m \<Rightarrow>
             if int attempt = max_retries - 1
             then (Raised (RequestException m), [POST url data timeout])
             else after [POST url data timeout, SLEEP 1]
                    (make_request_from post url data timeout max_retries (Suc attempt))
         | Crashed m \<Rightarrow> (Raised (OtherException m), [POST url data timeout]))
      else (Returned None, []))"
  by pat_completeness auto
termination
  by (relation "measure (\<lambda>(post, url, data, timeout, max_retries, attempt).
        nat (max_retries - int attempt))") auto

declare make_request_from.simps [simp del]

definition make_request ::
  "(nat \<Rightarrow> post_outcome) \<Rightarrow> string \<Rightarrow> payload \<Rightarrow> int \<Rightarrow> int \<Rightarrow> response option outcome \<times> io list" where
  "make_request post url data timeout max_retries =
     make_request_from post url data timeout max_retries 0"

section \<open>The batch driver\<close>

text \<open>
  What a run meets from outside: the outcome of the POST call made for the row at a
  position at an attempt, the formatted time at which the row at a position is logged,
  and whether a termination signal arrives before the loop starts or while the row at
  a position is being processed.
\<close>

record env =
  post_at :: "nat \<Rightarrow> nat \<Rightarrow> post_outcome"
  now_at :: "nat \<Rightarrow> string"
  signal_at_start :: bool
  signal_during :: "nat \<Rightarrow> bool"

definition API_URL :: string where
  "API_URL = ''http://127.0.0.1:8000/opportunities/''"

definition timeout_msg :: string where
  "timeout_msg = ''Timeout na requisi'' @ [CHR 0xE7, CHR 0xE3] @ ''o''"

definition request_error_prefix :: string where
  "request_error_prefix = ''Erro na requisi'' @ [CHR 0xE7, CHR 0xE3] @ ''o: ''"

text \<open>
  The text of the \<open>AttributeError\<close> that \<open>response.status_code\<close> raises when
  \<open>response\<close> is \<open>None\<close>.
\<close>

definition none_has_no_status_code :: string where
  "none_has_no_status_code =
     [CHR 0x27] @ ''NoneType'' @ [CHR 0x27] @ '' object has no attribute ''
     @ [CHR 0x27] @ ''status_code'' @ [CHR 0x27]"

text \<open>
  The \<open>try\<close> statement of the loop body, after the payload is built: the
  classification of what \<open>make_request\<close> returned or raised, as the file to append to
  and the arguments \<open>response\<close> and \<open>error\<close> of \<open>log_result\<close>.
\<close>

fun classify :: "response option outcome \<Rightarrow> target \<times> response option \<times> string option" where
  "classify (Returned (Some r)) =
     (if status_code r = 200 \<or> status_code r = 201 then (SuccessFile, Some r, None)
      else (FailureFile, None, Some (''Status code: '' @ str_int (status_code r))))"
| "classify (Returned None) =
     (FailureFile, None, Some (''Erro inesperado: '' @ none_has_no_status_code))"
| "classify (Raised (Timeout m)) = (FailureFile, None, Some timeout_msg)"
| "classify (Raised (RequestException m)) = (FailureFile, None, Some (request_error_prefix @ m))"
| "classify (Raised (OtherException m)) = (FailureFile, None, Some (''Erro inesperado: '' @ m))"

text \<open>
  The body of the loop of \<open>main\<close> for the row at position \<open>index\<close>. \<open>main\<close> calls
  \<open>make_request\<close> with its defaults, a timeout of 45 and \<open>max_retries\<close> of 3; the
  body is stated for any \<open>max_retries\<close>.
\<close>

definition process_row :: "env \<Rightarrow> int \<Rightarrow> nat \<Rightarrow> row \<Rightarrow> state \<Rightarrow> state" where
  "process_row e max_retries index r st =
     (case prepare_payload r of
        None \<Rightarrow> st
      | Some data \<Rightarrow>
          (case make_request (post_at e index) API_URL data 45 max_retries of
             (result, ios) \<Rightarrow>
               (case classify result of
                  (file_path, response, error) \<Rightarrow>
                    log_result index (now_at e index) file_path data response error
                      (st\<lparr>trace := trace st @ map (Pair index) ios\<rparr>))))"

definition deliver :: "bool \<Rightarrow> state \<Rightarrow> state" where
  "deliver signal st = (if signal then exit_gracefully st else st)"

text \<open>
  The loop over the rows from position \<open>index\<close> on: the flag is read before each row,
  and a signal that arrives while a row is processed only sets the flag.
\<close>

fun main_loop :: "env \<Rightarrow> nat \<Rightarrow> row list \<Rightarrow> state \<Rightarrow> state" where
  "main_loop e index [] st = st"
| "main_loop e index (r # rs) st =
     (if kill_now st then st
      else main_loop e (Suc index) rs
             (deliver (signal_during e index) (process_row e 3 index r st)))"

definition initial :: state where
  "initial = \<lparr> kill_now = False, success_file = [], failure_file = [], trace = [] \<rparr>"

text \<open>\<open>main\<close>: \<open>df\<close> is \<open>None\<close> when the spreadsheet could not be read.\<close>

definition main :: "env \<Rightarrow> row list option \<Rightarrow> state" where
  "main e df =
     (let st = deliver (signal_at_start e) initial in
      case df of
        None \<Rightarrow> st
      | Some rows \<Rightarrow> main_loop e 0 rows st)"

section \<open>Observations of a run\<close>

text \<open>The positions of the rows for which a line was appended, in the order of the appends.\<close>

fun is_append :: "io \<Rightarrow> bool" where
  "is_append (APPEND file_path text) = True"
| "is_append _ = False"

fun is_post :: "io \<Rightarrow> bool" where
  "is_post (POST url data timeout) = True"
| "is_post _ = False"

definition logged :: "(nat \<times> io) list \<Rightarrow> nat list" where
  "logged tr = map fst (filter (\<lambda>ev. is_append (snd ev)) tr)"

definition posts_of :: "nat \<Rightarrow> (nat \<times> io) list \<Rightarrow> nat" where
  "posts_of index tr = length (filter (\<lambda>ev. fst ev = index \<and> is_post (snd ev)) tr)"

text \<open>The effects that belong to the row at position \<open>j\<close>, in their order.\<close>

definition events_of :: "nat \<Rightarrow> (nat \<times> io) list \<Rightarrow> (nat \<times> io) list" where
  "events_of j tr = filter (\<lambda>ev. fst ev = j) tr"

text \<open>The text appended to a file, read off the trace.\<close>

fun appended_to :: "target \<Rightarrow> (nat \<times> io) list \<Rightarrow> string list" where
  "appended_to file_path [] = []"
| "appended_to file_path ((index, APPEND f text) # tr) =
     (if f = file_path then text # appended_to file_path tr else appended_to file_path tr)"
| "appended_to file_path (ev # tr) = appended_to file_path tr"

text \<open>The two files hold what the trace says was appended to them.\<close>

definition consistent :: "state \<Rightarrow> bool" where
  "consistent st \<longleftrightarrow>
     success_file st = appended_to SuccessFile (trace st) \<and>
     failure_file st = appended_to FailureFile (trace st)"

text \<open>
  The number of rows, of \<open>n\<close> from position \<open>index\<close> on, whose processing starts:
  the loop reads the flag before each row, so the row during which the signal arrives
  is the last one started.
\<close>

fun started_from :: "env \<Rightarrow> nat \<Rightarrow> nat \<Rightarrow> nat" where
  "started_from e index 0 = 0"
| "started_from e index (Suc n) =
     Suc (if signal_during e index then 0 else started_from e (Suc index) n)"

definition started :: "env \<Rightarrow> nat \<Rightarrow> nat" where
  "started e n = (if signal_at_start e then 0 else started_from e 0 n)"

text \<open>An outcome of a POST call after which \<open>make_request\<close> tries again.\<close>

fun transient :: "post_outcome \<Rightarrow> bool" where
  "transient (TimedOut m) = True"
| "transient (TransportFailed m) = True"
| "transient _ = False"

text \<open>
  The line format as the specification words it, with the outcome tag and the closing
  detail left open: \<open>[<timestamp>] <tag> - Dados: <payload-as-JSON> - <detail>\<close>.
\<close>

definition spec_line :: "string \<Rightarrow> string \<Rightarrow> payload \<Rightarrow> string \<Rightarrow> string" where
  "spec_line timestamp tag data detail =
     ''['' @ timestamp @ ''] '' @ tag @ '' - Dados: '' @ json_dumps data @ '' - '' @ detail"

section \<open>The rows and surroundings of the concrete scenarios\<close>

text \<open>The row of the concrete scenario; the cell of \<open>stage_id\<close> is empty.\<close>

definition acme :: row where
  "acme =
     [''Name'' \<mapsto> CStr ''Acme'',
      ''Company Name'' \<mapsto> CStr ''Acme Inc'',
      ''x_studio_tese'' \<mapsto> CStr ''x'',
      ''user_id'' \<mapsto> CInt 5,
      ''team_id'' \<mapsto> CInt 2,
      ''tag_ids'' \<mapsto> CStr ''a,b'',
      ''stage_id'' \<mapsto> CNaN]"

definition acme_payload :: payload where
  "acme_payload =
     \<lparr> name = ''Acme'', contact_name = ''Acme Inc'', x_studio_tese = ''x'',
       user_id = 5, team_id = 2, tag_ids = [''a'', ''b''], stage_id = 10 \<rparr>"

text \<open>
  Surroundings in which every POST call has the outcome \<open>p\<close> gives for its attempt,
  the clock stands still, and the signal arrives while the rows \<open>s\<close> holds of are
  processed.
\<close>

definition world :: "(nat \<Rightarrow> post_outcome) \<Rightarrow> (nat \<Rightarrow> bool) \<Rightarrow> env" where
  "world p s =
     \<lparr> post_at = (\<lambda>index. p), now_at = (\<lambda>index. ''2024-01-01 00:00:00''),
       signal_at_start = False, signal_during = s \<rparr>"

section \<open>Lemmas about the retrying submitter and the loop\<close>

subsection \<open>The attempt loop\<close>

lemma make_request_from_exhausted:
  "\<not> int attempt < max_retries \<Longrightarrow>
   make_request_from post url data timeout max_retries attempt = (Returned None, [])"
  by (simp add: make_request_from.simps)

lemma make_request_from_responded:
  "int attempt < max_retries \<Longrightarrow> post attempt = Responded r \<Longrightarrow>
   make_request_from post url data timeout max_retries attempt
     = (Returned (Some r), [POST url data timeout])"
  by (simp add: make_request_from.simps)

lemma make_request_from_retry:
  "int attempt < max_retries \<Longrightarrow> transient (post attempt) \<Longrightarrow> int attempt \<noteq> max_retries - 1 \<Longrightarrow>
   make_request_from post url data timeout max_retries attempt
     = after [POST url data timeout, SLEEP 1]
         (make_request_from post url data timeout max_retries (Suc attempt))"
  by (cases "post attempt") (simp_all add: make_request_from.simps)

lemma make_request_from_last_timeout:
  "int attempt = max_retries - 1 \<Longrightarrow> post attempt = TimedOut m \<Longrightarrow>
   make_request_from post url data timeout max_retries attempt
     = (Raised (Timeout m), [POST url data timeout])"
  by (simp add: make_request_from.simps)

lemma response_after_transients:
  "int (attempt + k) < max_retries \<Longrightarrow> (\<forall>j<k. transient (post (attempt + j))) \<Longrightarrow>
   post (attempt + k) = Responded r \<Longrightarrow>
   make_request_from post url data timeout max_retries attempt
     = (Returned (Some r),
        concat (replicate k [POST url data timeout, SLEEP 1]) @ [POST url data timeout])"
proof (induction k arbitrary: attempt)
  case 0
  then show ?case by (simp add: make_request_from_responded)
next
  case (Suc k)
  have t: "transient (post attempt)" using Suc.prems(2) by (metis add.right_neutral zero_less_Suc)
  have a: "int attempt < max_retries" "int attempt \<noteq> max_retries - 1" using Suc.prems(1) by auto
  have "make_request_from post url data timeout max_retries (Suc attempt)
     = (Returned (Some r),
        concat (replicate k [POST url data timeout, SLEEP 1]) @ [POST url data timeout])"
  proof (rule Suc.IH)
    show "int (Suc attempt + k) < max_retries" using Suc.prems(1) by simp
    show "\<forall>j<k. transient (post (Suc attempt + j))" using Suc.prems(2) by (metis Suc_less_eq add_Suc_shift)
    show "post (Suc attempt + k) = Responded r" using Suc.prems(3) by simp
  qed
  then show ?case using t a by (simp add: make_request_from_retry after_def)
qed

lemma all_timeouts_from:
  "int attempt + int (Suc n) = max_retries \<Longrightarrow> (\<forall>j\<le>n. post (attempt + j) = TimedOut (msg (attempt + j))) \<Longrightarrow>
   make_request_from post url data timeout max_retries attempt
     = (Raised (Timeout (msg (attempt + n))),
        concat (replicate n [POST url data timeout, SLEEP 1]) @ [POST url data timeout])"
proof (induction n arbitrary: attempt)
  case 0
  then show ?case by (simp add: make_request_from_last_timeout)
next
  case (Suc n)
  have p: "post attempt = TimedOut (msg attempt)" using Suc.prems(2) by (metis add.right_neutral le0)
  have a: "int attempt < max_retries" "int attempt \<noteq> max_retries - 1" using Suc.prems(1) by auto
  have "make_request_from post url data timeout max_retries (Suc attempt)
     = (Raised (Timeout (msg (Suc attempt + n))),
        concat (replicate n [POST url data timeout, SLEEP 1]) @ [POST url data timeout])"
  proof (rule Suc.IH)
    show "int (Suc attempt) + int (Suc n) = max_retries" using Suc.prems(1) by simp
    show "\<forall>j\<le>n. post (Suc attempt + j) = TimedOut (msg (Suc attempt + j))"
      using Suc.prems(2) by (metis Suc_le_mono add_Suc_shift)
  qed
  then show ?case using p a by (simp add: make_request_from_retry after_def)
qed


subsection \<open>The loop body\<close>

lemma no_append_in_request:
  "filter is_append (snd (make_request_from post url data timeout max_retries attempt)) = []"
proof (induction post url data timeout max_retries attempt rule: make_request_from.induct)
  case (1 post url data timeout max_retries attempt)
  show ?case
  proof (cases "int attempt < max_retries")
    case False
    then show ?thesis by (simp add: make_request_from_exhausted)
  next
    case True
    show ?thesis
    proof (cases "post attempt")
      case (Responded r)
      with True show ?thesis by (simp add: make_request_from.simps)
    next
      case (TimedOut m)
      with True "1.IH"(1) show ?thesis
        by (cases "int attempt = max_retries - 1") (simp_all add: make_request_from.simps after_def)
    next
      case (TransportFailed m)
      with True "1.IH"(2) show ?thesis
        by (cases "int attempt = max_retries - 1") (simp_all add: make_request_from.simps after_def)
    next
      case (Crashed m)
      with True show ?thesis by (simp add: make_request_from.simps)
    qed
  qed
qed

lemma logged_append [simp]: "logged (xs @ ys) = logged xs @ logged ys"
  by (simp add: logged_def)

lemma logged_request [simp]:
  "logged (map (Pair index) (snd (make_request_from post url data timeout max_retries attempt))) = []"
  using no_append_in_request [of post url data timeout max_retries attempt]
  by (simp add: logged_def filter_map comp_def)

lemma appended_to_append [simp]:
  "appended_to f (xs @ ys) = appended_to f xs @ appended_to f ys"
  by (induction f xs rule: appended_to.induct) simp_all

lemma appended_to_no_append:
  "filter is_append ios = [] \<Longrightarrow> appended_to f (map (Pair index) ios) = []"
proof (induction ios)
  case Nil
  then show ?case by simp
next
  case (Cons ev ios)
  then show ?case by (cases ev) (simp_all split: if_splits)
qed

lemma appended_to_request [simp]:
  "appended_to f (map (Pair index) (snd (make_request_from post url data timeout max_retries attempt))) = []"
  by (rule appended_to_no_append) (rule no_append_in_request)

text \<open>What the loop body does to a row that builds: the calls, then one line.\<close>

lemma process_row_built:
  assumes "prepare_payload r = Some data"
  shows "process_row e max_retries index r st =
     (let res = make_request (post_at e index) API_URL data 45 max_retries;
          c = classify (fst res)
      in log_result index (now_at e index) (fst c) data (fst (snd c)) (snd (snd c))
           (st\<lparr>trace := trace st @ map (Pair index) (snd res)\<rparr>))"
  using assms by (simp add: process_row_def Let_def split: prod.splits)

lemma process_row_not_built:
  "prepare_payload r = None \<Longrightarrow> process_row e max_retries index r st = st"
  by (simp add: process_row_def)

lemma kill_now_log_result [simp]:
  "kill_now (log_result index ts f data response error st) = kill_now st"
  by (cases f) (simp_all add: log_result_def append_to_def Let_def)

lemma trace_log_result [simp]:
  "trace (log_result index ts f data response error st)
     = trace st @ [(index, APPEND f (log_line ts data response error))]"
  by (cases f) (simp_all add: log_result_def append_to_def Let_def)

lemma success_file_log_result [simp]:
  "success_file (log_result index ts f data response error st)
     = (if f = SuccessFile then success_file st @ [log_line ts data response error]
        else success_file st)"
  by (cases f) (simp_all add: log_result_def append_to_def Let_def)

lemma failure_file_log_result [simp]:
  "failure_file (log_result index ts f data response error st)
     = (if f = FailureFile then failure_file st @ [log_line ts data response error]
        else failure_file st)"
  by (cases f) (simp_all add: log_result_def append_to_def Let_def)

lemma kill_now_process_row [simp]:
  "kill_now (process_row e max_retries index r st) = kill_now st"
  by (cases "prepare_payload r") (simp_all add: process_row_built process_row_not_built Let_def)

lemma logged_process_row:
  "logged (trace (process_row e max_retries index r st))
     = logged (trace st) @ (if prepare_payload r = None then [] else [index])"
  by (cases "prepare_payload r")
     (simp_all add: process_row_built process_row_not_built Let_def make_request_def,
      simp add: logged_def)


subsection \<open>The loop\<close>

lemma main_loop_killed: "kill_now st \<Longrightarrow> main_loop e index rows st = st"
  by (cases rows) simp_all

lemma logged_main_loop:
  "\<not> kill_now st \<Longrightarrow>
   logged (trace (main_loop e index rows st))
     = logged (trace st)
       @ map fst (filter (\<lambda>p. prepare_payload (snd p) \<noteq> None)
           (take (started_from e index (length rows)) (enumerate index rows)))"
proof (induction rows arbitrary: index st)
  case Nil
  then show ?case by simp
next
  case (Cons r rs)
  let ?st1 = "process_row e 3 index r st"
  show ?case
  proof (cases "signal_during e index")
    case True
    then have "main_loop e index (r # rs) st = exit_gracefully ?st1"
      using Cons.prems by (simp add: deliver_def main_loop_killed exit_gracefully_def)
    then show ?thesis using True by (simp add: exit_gracefully_def logged_process_row)
  next
    case False
    then have "main_loop e index (r # rs) st = main_loop e (Suc index) rs ?st1"
      using Cons.prems by (simp add: deliver_def)
    moreover have "\<not> kill_now ?st1" using Cons.prems by simp
    ultimately show ?thesis using False Cons.IH [of ?st1 "Suc index"]
      by (simp add: logged_process_row)
  qed
qed

lemma consistent_process_row:
  "consistent st \<Longrightarrow> consistent (process_row e max_retries index r st)"
  by (cases "prepare_payload r")
     (simp_all add: process_row_built process_row_not_built Let_def make_request_def consistent_def)

lemma consistent_main_loop:
  "consistent st \<Longrightarrow> consistent (main_loop e index rows st)"
proof (induction rows arbitrary: index st)
  case Nil
  then show ?case by simp
next
  case (Cons r rs)
  have "consistent (deliver (signal_during e index) (process_row e 3 index r st))"
    using consistent_process_row [OF Cons.prems, of e 3 index r]
    by (simp add: deliver_def exit_gracefully_def consistent_def)
  then show ?case using Cons.IH Cons.prems by simp
qed

lemma length_appended_to:
  "length (appended_to SuccessFile tr) + length (appended_to FailureFile tr) = length (logged tr)"
proof (induction tr)
  case Nil
  then show ?case by (simp add: logged_def)
next
  case (Cons ev tr)
  obtain i x where ev: "ev = (i, x)" by (cases ev)
  show ?case
  proof (cases x)
    case (POST url data timeout)
    with Cons ev show ?thesis by (simp add: logged_def)
  next
    case (SLEEP n)
    with Cons ev show ?thesis by (simp add: logged_def)
  next
    case (APPEND f ln)
    with Cons ev show ?thesis by (cases f) (simp_all add: logged_def)
  qed
qed



lemma started_from_le: "started_from e index n \<le> n"
  by (induction n arbitrary: index) simp_all

lemma take_enumerate: "take n (enumerate m xs) = enumerate m (take n xs)"
proof (induction xs arbitrary: n m)
  case Nil
  then show ?case by simp
next
  case (Cons x xs)
  then show ?case by (cases n) simp_all
qed

lemma in_started_rows:
  assumes "n \<le> length rows"
  shows "i \<in> set (map fst (filter (\<lambda>p. prepare_payload (snd p) \<noteq> None) (take n (enumerate 0 rows))))
     \<longleftrightarrow> i < n \<and> prepare_payload (rows ! i) \<noteq> None"
proof
  assume "i \<in> set (map fst (filter (\<lambda>p. prepare_payload (snd p) \<noteq> None) (take n (enumerate 0 rows))))"
  then obtain p where p: "p \<in> set (enumerate 0 (take n rows))" "prepare_payload (snd p) \<noteq> None" "fst p = i"
    by (auto simp add: take_enumerate)
  then show "i < n \<and> prepare_payload (rows ! i) \<noteq> None"
    using assms by (auto simp add: in_set_enumerate_eq)
next
  assume a: "i < n \<and> prepare_payload (rows ! i) \<noteq> None"
  then have "(i, rows ! i) \<in> set (enumerate 0 (take n rows))"
    using assms by (simp add: in_set_enumerate_eq)
  then have "(i, rows ! i) \<in> set (filter (\<lambda>p. prepare_payload (snd p) \<noteq> None) (take n (enumerate 0 rows)))"
    using a by (simp add: take_enumerate)
  then show "i \<in> set (map fst (filter (\<lambda>p. prepare_payload (snd p) \<noteq> None) (take n (enumerate 0 rows))))"
    by force
qed

lemma increasing_started_rows:
  "sorted_wrt (<) (map fst (filter P (take n (enumerate m rows))))"
proof -
  have "sorted_wrt (<) (map fst (enumerate m rows))" by (simp add: strict_sorted_iff)
  then have "sorted_wrt (\<lambda>p q. fst p < fst q) (enumerate m rows)" by (simp only: sorted_wrt_map)
  then have "sorted_wrt (\<lambda>p q. fst p < fst q) (filter P (take n (enumerate m rows)))"
    by (intro sorted_wrt_filter sorted_wrt_take)
  then show ?thesis by (simp only: sorted_wrt_map)
qed

lemma initial_consistent: "consistent (deliver b initial)"
  by (simp add: consistent_def deliver_def exit_gracefully_def initial_def)

lemma logged_main:
  "logged (trace (main e (Some rows)))
     = map fst (filter (\<lambda>p. prepare_payload (snd p) \<noteq> None)
         (take (started e (length rows)) (enumerate 0 rows)))"
proof (cases "signal_at_start e")
  case True
  then show ?thesis
    by (simp add: main_def started_def deliver_def exit_gracefully_def main_loop_killed initial_def logged_def)
next
  case False
  then show ?thesis
    using logged_main_loop [of initial e 0 rows]
    by (simp add: main_def started_def deliver_def initial_def logged_def)
qed

lemma started_le: "started e n \<le> n"
  by (simp add: started_def started_from_le)

lemma all_timeouts:
  assumes "1 \<le> max_retries" and "\<forall>a. int a < max_retries \<longrightarrow> post a = TimedOut (msg a)"
  shows "make_request post url data timeout max_retries
     = (Raised (Timeout (msg (nat (max_retries - 1)))),
        concat (replicate (nat (max_retries - 1)) [POST url data timeout, SLEEP 1])
        @ [POST url data timeout])"
proof -
  have "int 0 + int (Suc (nat (max_retries - 1))) = max_retries" using assms(1) by simp
  moreover have "\<forall>j\<le>nat (max_retries - 1). post (0 + j) = TimedOut (msg (0 + j))"
    using assms by auto
  ultimately show ?thesis
    unfolding make_request_def
    using all_timeouts_from [of 0 "nat (max_retries - 1)" max_retries post msg url data timeout]
    by simp
qed

subsection \<open>Cancellation\<close>




lemma events_of_append [simp]: "events_of j (xs @ ys) = events_of j xs @ events_of j ys"
  by (simp add: events_of_def)

lemma events_of_other [simp]: "j \<noteq> index \<Longrightarrow> events_of j (map (Pair index) ios) = []"
  by (induction ios) (simp_all add: events_of_def)





subsection \<open>The payload builder\<close>

lemma and_then_Inr: "and_then m f = Inr v \<longleftrightarrow> (\<exists>x. m = Inr x \<and> f x = Inr v)"
  by (cases m) (simp_all add: and_then_def)

lemma getitem_Inr: "getitem r key = Inr c \<longleftrightarrow> r key = Some c"
  by (cases "r key") (simp_all add: getitem_def)

lemma prepare_payload_Some: "prepare_payload r = Some p \<longleftrightarrow> build_dict r = Inr p"
  by (cases "build_dict r") (simp_all add: prepare_payload_def)

lemma build_dict_tag_ids:
  assumes "build_dict r = Inr p"
  shows "\<exists>c. r ''tag_ids'' = Some c \<and> tag_ids p = (case c of CStr s \<Rightarrow> split_comma s | _ \<Rightarrow> [])"
  using assms unfolding build_dict_def and_then_Inr getitem_Inr by auto

lemma split_comma_not_empty: "split_comma s \<noteq> []"
  by (induction s) (simp_all split: list.splits)

text \<open>
  A row that has no \<open>stage_id\<close> label at all, as when the spreadsheet lacks the
  column, is not built: the default of 10 is for an empty cell.
\<close>

lemma acme_without_stage_id_column:
  "prepare_payload (acme(''stage_id'' := None)) = None"
  by code_simp

section \<open>The claims\<close>

text \<open>
  C1, as amended. A row whose payload construction raises (a missing label, a value of
  the wrong type, a string that is not a number) leaves the state of the run as it
  was: no line is appended to either file and no POST call is made for it. The claim
  that one failure line is appended fails: the loop body continues with the next row
  as soon as \<open>prepare_payload\<close> returns \<open>None\<close>.
\<close>

theorem build_failure_skips_row:
  "build_dict r = Inl err \<Longrightarrow> process_row e max_retries index r st = st"
  by (simp add: process_row_def prepare_payload_def)

theorem build_failure_skips_row_witness:
  "process_row (world (\<lambda>a. Responded \<lparr>status_code = 201\<rparr>) (\<lambda>i. False)) 3 0 Map.empty initial = initial
   \<and> process_row (world (\<lambda>a. Responded \<lparr>status_code = 201\<rparr>) (\<lambda>i. False)) 3 0
        (acme(''user_id'' \<mapsto> CNone)) initial = initial
   \<and> process_row (world (\<lambda>a. Responded \<lparr>status_code = 201\<rparr>) (\<lambda>i. False)) 3 0
        (acme(''team_id'' \<mapsto> CStr ''abc'')) initial = initial
   \<and> process_row (world (\<lambda>a. Responded \<lparr>status_code = 201\<rparr>) (\<lambda>i. False)) 3 0
        (acme(''user_id'' \<mapsto> CStr (CHR 0x1C # ''5''))) initial = initial"
proof -
  have a: "build_dict Map.empty = Inl (KeyError ''Name'')" by code_simp
  have b: "build_dict (acme(''user_id'' \<mapsto> CNone)) = Inl TypeError" by code_simp
  have c: "build_dict (acme(''team_id'' \<mapsto> CStr ''abc'')) = Inl ValueError" by code_simp
  have d: "build_dict (acme(''user_id'' \<mapsto> CStr (CHR 0x1C # ''5''))) = Inl ValueError"
    by code_simp
  show ?thesis
    using build_failure_skips_row [OF a] build_failure_skips_row [OF b]
          build_failure_skips_row [OF c] build_failure_skips_row [OF d]
    by simp
qed

theorem build_failure_not_logged_counterexample:
  "build_dict (acme(''team_id'' \<mapsto> CStr ''abc'')) = Inl ValueError
   \<and> failure_file (main (world (\<lambda>a. Responded \<lparr>status_code = 201\<rparr>) (\<lambda>i. False))
        (Some [acme(''team_id'' \<mapsto> CStr ''abc'')])) = []"
  by code_simp

text \<open>
  C2. The positions at which a line is logged are strictly increasing, so the lines
  come in the order of the rows and no row has two. A line is logged for the row at
  position \<open>i\<close> exactly when its processing started before the flag was seen and its
  payload was built, that is, when it reached the submission; a row skipped on
  cancellation or not built has none. The two files hold exactly the lines logged.
\<close>

theorem one_outcome_per_submitted_row:
  "sorted_wrt (<) (logged (trace (main e (Some rows))))
   \<and> (i \<in> set (logged (trace (main e (Some rows))))
        \<longleftrightarrow> i < started e (length rows) \<and> prepare_payload (rows ! i) \<noteq> None)
   \<and> success_file (main e (Some rows)) = appended_to SuccessFile (trace (main e (Some rows)))
   \<and> failure_file (main e (Some rows)) = appended_to FailureFile (trace (main e (Some rows)))
   \<and> length (success_file (main e (Some rows))) + length (failure_file (main e (Some rows)))
        = length (logged (trace (main e (Some rows))))"
proof -
  let ?st = "main e (Some rows)"
  have c: "consistent ?st"
    by (simp add: main_def consistent_main_loop initial_consistent)
  have s: "sorted_wrt (<) (logged (trace ?st))"
    by (simp only: logged_main increasing_started_rows)
  have m: "i \<in> set (logged (trace ?st))
        \<longleftrightarrow> i < started e (length rows) \<and> prepare_payload (rows ! i) \<noteq> None"
    by (simp only: logged_main in_started_rows [OF started_le])
  have l: "length (success_file ?st) + length (failure_file ?st) = length (logged (trace ?st))"
    using c length_appended_to [of "trace ?st"] by (simp add: consistent_def)
  from c have f: "success_file ?st = appended_to SuccessFile (trace ?st)"
    "failure_file ?st = appended_to FailureFile (trace ?st)" by (simp_all add: consistent_def)
  from s m f l show ?thesis by blast
qed

text \<open>
  C3. When the attempts before attempt \<open>k\<close> failed with a timeout or a transport
  error and attempt \<open>k\<close> receives a response, that response is returned as it is,
  whatever its status code, and the POST call of attempt \<open>k\<close> is the last effect: no
  sleep and no further call follow. With \<open>k = 0\<close> exactly one POST call is made.
\<close>

theorem received_response_is_returned:
  "int k < max_retries \<Longrightarrow> (\<forall>j<k. transient (post j)) \<Longrightarrow> post k = Responded r \<Longrightarrow>
   make_request post url data timeout max_retries
     = (Returned (Some r),
        concat (replicate k [POST url data timeout, SLEEP 1]) @ [POST url data timeout])"
  unfolding make_request_def using response_after_transients [of 0 k max_retries post r url data timeout]
  by simp

theorem received_response_is_returned_witness:
  "make_request (\<lambda>a. Responded \<lparr>status_code = 500\<rparr>) API_URL acme_payload 45 3
     = (Returned (Some \<lparr>status_code = 500\<rparr>), [POST API_URL acme_payload 45])
   \<and> make_request (\<lambda>a. if a = 0 then TimedOut ''t'' else Responded \<lparr>status_code = 404\<rparr>)
         API_URL acme_payload 45 3
     = (Returned (Some \<lparr>status_code = 404\<rparr>),
        [POST API_URL acme_payload 45, SLEEP 1, POST API_URL acme_payload 45])"
  using received_response_is_returned
          [of 0 3 "\<lambda>a. Responded \<lparr>status_code = 500\<rparr>" "\<lparr>status_code = 500\<rparr>"
              API_URL acme_payload 45]
        received_response_is_returned
          [of 1 3 "\<lambda>a. if a = 0 then TimedOut ''t'' else Responded \<lparr>status_code = 404\<rparr>"
              "\<lparr>status_code = 404\<rparr>" API_URL acme_payload 45]
  by simp

text \<open>
  C4, as amended. When \<open>max_retries\<close> is at least 1 and every attempt times out,
  \<open>make_request\<close> makes \<open>max_retries\<close> POST calls with a sleep of 1 after each but
  the last, and raises the timeout of the last attempt. The loop body then logs one
  failure line whose error description is the fixed text of \<open>timeout_msg\<close>: the text
  of the timeout that was raised is not written, so the claim that the final attempt's
  error is what is logged fails.
\<close>

theorem every_attempt_times_out:
  assumes "1 \<le> max_retries"
    and "\<forall>a. int a < max_retries \<longrightarrow> post_at e index a = TimedOut (msg a)"
    and "prepare_payload r = Some data"
  shows "make_request (post_at e index) API_URL data 45 max_retries
     = (Raised (Timeout (msg (nat (max_retries - 1)))),
        concat (replicate (nat (max_retries - 1)) [POST API_URL data 45, SLEEP 1])
        @ [POST API_URL data 45])
   \<and> process_row e max_retries index r st
     = log_result index (now_at e index) FailureFile data None (Some timeout_msg)
         (st\<lparr>trace := trace st
            @ map (Pair index)
                (concat (replicate (nat (max_retries - 1)) [POST API_URL data 45, SLEEP 1])
                 @ [POST API_URL data 45])\<rparr>)"
proof -
  have m: "make_request (post_at e index) API_URL data 45 max_retries
     = (Raised (Timeout (msg (nat (max_retries - 1)))),
        concat (replicate (nat (max_retries - 1)) [POST API_URL data 45, SLEEP 1])
        @ [POST API_URL data 45])"
    using assms(1,2) by (rule all_timeouts)
  then show ?thesis using assms(3) by (simp add: process_row_built)
qed

theorem every_attempt_times_out_witness:
  "make_request (\<lambda>a. TimedOut (if a = 2 then ''third'' else ''earlier'')) API_URL acme_payload 45 3
     = (Raised (Timeout ''third''),
        [POST API_URL acme_payload 45, SLEEP 1, POST API_URL acme_payload 45, SLEEP 1,
         POST API_URL acme_payload 45])
   \<and> failure_file (process_row (world (\<lambda>a. TimedOut (if a = 2 then ''third'' else ''earlier'')) (\<lambda>i. False))
        3 0 acme initial)
     = [spec_line ''2024-01-01 00:00:00'' ''Falha'' acme_payload (''Erro: '' @ timeout_msg) @ [CHR 0x0A]]"
proof -
  let ?e = "world (\<lambda>a. TimedOut (if a = 2 then ''third'' else ''earlier'')) (\<lambda>i. False)"
  have a: "(1::int) \<le> 3" by simp
  have b: "\<forall>a. int a < 3 \<longrightarrow> post_at ?e 0 a = TimedOut ((\<lambda>a. if a = 2 then ''third'' else ''earlier'') a)"
    by (simp add: world_def)
  have c: "prepare_payload acme = Some acme_payload" by code_simp
  have p: "post_at ?e 0 = (\<lambda>a. TimedOut (if a = 2 then ''third'' else ''earlier''))"
    by (simp add: world_def)
  have n: "now_at ?e 0 = ''2024-01-01 00:00:00''" by (simp add: world_def)
  have r: "replicate 2 x = [x, x]" for x :: "io list"
    by (simp add: numeral_2_eq_2)
  show ?thesis
    using every_attempt_times_out [OF a b c, of initial]
    by (simp add: p n r log_line_def spec_line_def str_opt_def initial_def)
qed

theorem timeout_text_not_logged_counterexample:
  "failure_file (main (world (\<lambda>a. TimedOut ''Read timed out.'') (\<lambda>i. False)) (Some [acme]))
     = [spec_line ''2024-01-01 00:00:00'' ''Falha'' acme_payload (''Erro: '' @ timeout_msg) @ [CHR 0x0A]]
   \<and> failure_file (main (world (\<lambda>a. TimedOut ''Read timed out.'') (\<lambda>i. False)) (Some [acme]))
     \<noteq> [spec_line ''2024-01-01 00:00:00'' ''Falha'' acme_payload (''Erro: Read timed out.'') @ [CHR 0x0A]]"
  by code_simp



text \<open>
  C6. For a row that is built and whose submission returns a response: with status 200
  or 201 one line with that status is appended to the success file and the failure
  file is left as it was; with any other status one line with the error description
  \<open>Status code: <code>\<close> is appended to the failure file and the success file is left
  as it was.
\<close>

theorem received_status_is_classified:
  assumes "prepare_payload r = Some data"
    and "fst (make_request (post_at e index) API_URL data 45 max_retries) = Returned (Some resp)"
  shows "(status_code resp = 200 \<or> status_code resp = 201 \<longrightarrow>
            success_file (process_row e max_retries index r st)
              = success_file st
                @ [spec_line (now_at e index) ''Sucesso'' data
                     (''Status: '' @ str_int (status_code resp)) @ [CHR 0x0A]]
            \<and> failure_file (process_row e max_retries index r st) = failure_file st)
       \<and> (\<not> (status_code resp = 200 \<or> status_code resp = 201) \<longrightarrow>
            failure_file (process_row e max_retries index r st)
              = failure_file st
                @ [spec_line (now_at e index) ''Falha'' data
                     (''Erro: Status code: '' @ str_int (status_code resp)) @ [CHR 0x0A]]
            \<and> success_file (process_row e max_retries index r st) = success_file st)"
proof (cases "status_code resp = 200 \<or> status_code resp = 201")
  case True
  then have "ok resp" by (auto simp add: ok_def)
  then show ?thesis using True assms
    by (simp add: process_row_built Let_def log_line_def spec_line_def)
next
  case False
  then show ?thesis using assms
    by (simp add: process_row_built Let_def log_line_def spec_line_def str_opt_def)
qed

theorem received_status_is_classified_witness:
  "success_file (process_row (world (\<lambda>a. Responded \<lparr>status_code = 201\<rparr>) (\<lambda>i. False)) 3 0 acme initial)
     = [spec_line ''2024-01-01 00:00:00'' ''Sucesso'' acme_payload ''Status: 201'' @ [CHR 0x0A]]
   \<and> failure_file (process_row (world (\<lambda>a. Responded \<lparr>status_code = 201\<rparr>) (\<lambda>i. False)) 3 0 acme initial)
     = []
   \<and> failure_file (process_row (world (\<lambda>a. Responded \<lparr>status_code = 500\<rparr>) (\<lambda>i. False)) 3 0 acme initial)
     = [spec_line ''2024-01-01 00:00:00'' ''Falha'' acme_payload ''Erro: Status code: 500'' @ [CHR 0x0A]]
   \<and> success_file (process_row (world (\<lambda>a. Responded \<lparr>status_code = 500\<rparr>) (\<lambda>i. False)) 3 0 acme initial)
     = []
   \<and> posts_of 0 (trace (process_row (world (\<lambda>a. Responded \<lparr>status_code = 500\<rparr>) (\<lambda>i. False)) 3 0 acme initial))
     = 1"
proof -
  let ?e = "world (\<lambda>a. Responded \<lparr>status_code = 201\<rparr>) (\<lambda>i. False)"
  let ?f = "world (\<lambda>a. Responded \<lparr>status_code = 500\<rparr>) (\<lambda>i. False)"
  have p: "prepare_payload acme = Some acme_payload" by code_simp
  have a: "fst (make_request (post_at ?e 0) API_URL acme_payload 45 3)
             = Returned (Some \<lparr>status_code = 201\<rparr>)" by code_simp
  have b: "fst (make_request (post_at ?f 0) API_URL acme_payload 45 3)
             = Returned (Some \<lparr>status_code = 500\<rparr>)" by code_simp
  have s1: "str_int 201 = ''201''" by code_simp
  have s5: "str_int 500 = ''500''" by code_simp
  have n: "now_at ?e 0 = ''2024-01-01 00:00:00''" "now_at ?f 0 = ''2024-01-01 00:00:00''"
    by (simp_all add: world_def)
  have c: "posts_of 0 (trace (process_row ?f 3 0 acme initial)) = 1" by code_simp
  show ?thesis
    using received_status_is_classified [OF p a, of initial]
          received_status_is_classified [OF p b, of initial] c
    by (simp add: s1 s5 n initial_def)
qed

text \<open>
  C7, as amended. In a payload that is built, \<open>tag_ids\<close> is the comma-split of the
  cell of \<open>tag_ids\<close> whenever that cell is a string, the empty string included, and
  is empty exactly when the cell is not a string. The claim that the empty string
  gives the empty sequence fails: it splits into one empty piece.
\<close>

theorem tag_ids_of_string:
  "prepare_payload r = Some p \<Longrightarrow>
   (\<exists>c. r ''tag_ids'' = Some c
      \<and> tag_ids p = (case c of CStr s \<Rightarrow> split_comma s | _ \<Rightarrow> [])
      \<and> (tag_ids p = [] \<longleftrightarrow> (case c of CStr s \<Rightarrow> False | _ \<Rightarrow> True)))"
proof -
  assume "prepare_payload r = Some p"
  then have "build_dict r = Inr p" by (simp add: prepare_payload_Some)
  then obtain c where c: "r ''tag_ids'' = Some c"
      "tag_ids p = (case c of CStr s \<Rightarrow> split_comma s | _ \<Rightarrow> [])"
    using build_dict_tag_ids by blast
  then have "tag_ids p = [] \<longleftrightarrow> (case c of CStr s \<Rightarrow> False | _ \<Rightarrow> True)"
    by (cases c) (simp_all add: split_comma_not_empty)
  with c show ?thesis by blast
qed

theorem tag_ids_of_string_witness:
  "(\<exists>c. (acme(''tag_ids'' \<mapsto> CStr '''')) ''tag_ids'' = Some c
      \<and> tag_ids (acme_payload\<lparr>tag_ids := [[]]\<rparr>) = (case c of CStr s \<Rightarrow> split_comma s | _ \<Rightarrow> [])
      \<and> (tag_ids (acme_payload\<lparr>tag_ids := [[]]\<rparr>) = [] \<longleftrightarrow> (case c of CStr s \<Rightarrow> False | _ \<Rightarrow> True)))"
proof -
  have a: "prepare_payload (acme(''tag_ids'' \<mapsto> CStr '''')) = Some (acme_payload\<lparr>tag_ids := [[]]\<rparr>)"
    by code_simp
  show ?thesis using tag_ids_of_string [OF a] .
qed

theorem empty_tag_ids_counterexample:
  "map_option tag_ids (prepare_payload (acme(''tag_ids'' \<mapsto> CStr ''''))) = Some [[]]"
  by code_simp

text \<open>
  C8. The row of the scenario, with the cell of \<open>stage_id\<close> empty (or \<open>None\<close>), is
  built into exactly the payload of the scenario, with \<open>stage_id\<close> 10.
\<close>

theorem acme_scenario:
  "prepare_payload acme = Some acme_payload
   \<and> prepare_payload (acme(''stage_id'' \<mapsto> CNone)) = Some acme_payload"
  by code_simp

text \<open>
  C9, as amended. Every line that \<open>log_result\<close> writes has the format
  \<open>[<timestamp>] <tag> - Dados: <payload-as-JSON> - <detail>\<close>, where the tag is
  \<open>Sucesso\<close> and the detail \<open>Status: <code>\<close> when a response that is ok is given,
  and the tag is \<open>Falha\<close> and the detail \<open>Erro: <description>\<close> otherwise. The loop
  body gives such a response exactly for its success outcomes, and a description and
  no response for its failure outcomes. The claim that the tags are the words
  \<open>Success\<close> and \<open>Failure\<close> fails.
\<close>

theorem line_format:
  "log_line timestamp data response error
     = (case response of
          None \<Rightarrow> spec_line timestamp ''Falha'' data (''Erro: '' @ str_opt error) @ [CHR 0x0A]
        | Some r \<Rightarrow>
            if ok r
            then spec_line timestamp ''Sucesso'' data (''Status: '' @ str_int (status_code r))
                 @ [CHR 0x0A]
            else spec_line timestamp ''Falha'' data (''Erro: '' @ str_opt error) @ [CHR 0x0A])
   \<and> (classify result = (SuccessFile, response, error) \<longrightarrow>
        (\<exists>r. response = Some r \<and> ok r \<and> (status_code r = 200 \<or> status_code r = 201)))
   \<and> (classify result = (FailureFile, response, error) \<longrightarrow>
        response = None \<and> error \<noteq> None)"
proof -
  have a: "log_line timestamp data response error
     = (case response of
          None \<Rightarrow> spec_line timestamp ''Falha'' data (''Erro: '' @ str_opt error) @ [CHR 0x0A]
        | Some r \<Rightarrow>
            if ok r
            then spec_line timestamp ''Sucesso'' data (''Status: '' @ str_int (status_code r))
                 @ [CHR 0x0A]
            else spec_line timestamp ''Falha'' data (''Erro: '' @ str_opt error) @ [CHR 0x0A])"
    by (cases response) (simp_all add: log_line_def spec_line_def Let_def)
  have b: "classify result = (SuccessFile, response, error) \<longrightarrow>
        (\<exists>r. response = Some r \<and> ok r \<and> (status_code r = 200 \<or> status_code r = 201))"
    by (induction result rule: classify.induct) (auto simp add: ok_def)
  have c: "classify result = (FailureFile, response, error) \<longrightarrow> response = None \<and> error \<noteq> None"
    by (induction result rule: classify.induct) auto
  from a b c show ?thesis by blast
qed

theorem line_format_witness:
  "log_line ''T'' acme_payload (Some \<lparr>status_code = 201\<rparr>) None
     = spec_line ''T'' ''Sucesso'' acme_payload ''Status: 201'' @ [CHR 0x0A]
   \<and> log_line ''T'' acme_payload None (Some ''Status code: 500'')
     = spec_line ''T'' ''Falha'' acme_payload ''Erro: Status code: 500'' @ [CHR 0x0A]
   \<and> classify (Returned (Some \<lparr>status_code = 201\<rparr>)) = (SuccessFile, Some \<lparr>status_code = 201\<rparr>, None)
   \<and> ok \<lparr>status_code = 201\<rparr>
   \<and> classify (Returned (Some \<lparr>status_code = 500\<rparr>)) = (FailureFile, None, Some ''Status code: 500'')"
proof -
  have s1: "str_int 201 = ''201''" by code_simp
  have s5: "str_int 500 = ''500''" by code_simp
  have k: "ok \<lparr>status_code = 201\<rparr>" by (simp add: ok_def)
  have c1: "classify (Returned (Some \<lparr>status_code = 201\<rparr>)) = (SuccessFile, Some \<lparr>status_code = 201\<rparr>, None)"
    by simp
  have c5: "classify (Returned (Some \<lparr>status_code = 500\<rparr>)) = (FailureFile, None, Some ''Status code: 500'')"
    by (simp add: s5)
  show ?thesis
    using line_format [of "''T''" acme_payload "Some \<lparr>status_code = 201\<rparr>" None
            "Returned (Some \<lparr>status_code = 201\<rparr>)"]
          line_format [of "''T''" acme_payload None "Some ''Status code: 500''"
            "Returned (Some \<lparr>status_code = 500\<rparr>)"]
          k c1 c5
    by (simp add: s1 str_opt_def)
qed

theorem english_tag_counterexample:
  "log_line ''T'' acme_payload (Some \<lparr>status_code = 201\<rparr>) None
     \<noteq> spec_line ''T'' ''Success'' acme_payload ''Status: 201'' @ [CHR 0x0A]
   \<and> log_line ''T'' acme_payload None (Some ''Status code: 500'')
     \<noteq> spec_line ''T'' ''Failure'' acme_payload ''Erro: Status code: 500'' @ [CHR 0x0A]"
  by code_simp

text \<open>
  C10. With \<open>max_retries\<close> 0 the loop of \<open>make_request\<close> has no iteration: no POST
  call is made, nothing is raised and \<open>None\<close> is returned. The loop body reads
  \<open>status_code\<close> of what was returned as of a response; on \<open>None\<close> that raises, and
  the last handler logs it as an unexpected error.
\<close>

theorem no_attempts_returns_none:
  "make_request post url data timeout 0 = (Returned None, [])
   \<and> classify (Returned None)
       = (FailureFile, None, Some (''Erro inesperado: '' @ none_has_no_status_code))
   \<and> (prepare_payload r = Some d \<longrightarrow>
        process_row e 0 index r st
          = log_result index (now_at e index) FailureFile d None
              (Some (''Erro inesperado: '' @ none_has_no_status_code)) st)"
  by (simp add: make_request_def make_request_from_exhausted process_row_built)

theorem no_attempts_returns_none_witness:
  "make_request (\<lambda>a. Responded \<lparr>status_code = 201\<rparr>) API_URL acme_payload 45 0 = (Returned None, [])
   \<and> process_row (world (\<lambda>a. Responded \<lparr>status_code = 201\<rparr>) (\<lambda>i. False)) 0 0 acme initial
       = log_result 0 ''2024-01-01 00:00:00'' FailureFile acme_payload None
           (Some (''Erro inesperado: '' @ none_has_no_status_code)) initial
   \<and> posts_of 0 (trace (process_row (world (\<lambda>a. Responded \<lparr>status_code = 201\<rparr>) (\<lambda>i. False)) 0 0 acme initial))
       = 0"
proof -
  let ?e = "world (\<lambda>a. Responded \<lparr>status_code = 201\<rparr>) (\<lambda>i. False)"
  have p: "prepare_payload acme = Some acme_payload" by code_simp
  have n: "now_at ?e 0 = ''2024-01-01 00:00:00''" by (simp add: world_def)
  have c: "posts_of 0 (trace (process_row ?e 0 0 acme initial)) = 0" by code_simp
  show ?thesis
    using no_attempts_returns_none
            [of "\<lambda>a. Responded \<lparr>status_code = 201\<rparr>" API_URL acme_payload 45 acme acme_payload ?e 0 initial]
          p n c
    by simp
qed

end
